theory Spec2Isabelle
  imports Complex_Main
begin

section \<open>JavaScript values\<close>

text \<open>
  The numbers of \<^verbatim>\<open>lib/copter.js\<close> are JavaScript numbers. A finite number is
  modelled by a real (rounding of doubles and the infinities are left out), and the two
  other values that reach the copter's fields are kept apart: \<open>NaN\<close>, and
  \<open>Undefined\<close>, which is what a field of the empty object \<^verbatim>\<open>{}\<close> reads as.
  \<open>Undefined\<close> is the one value here that is not of type number; it stands for
  every value that \<^verbatim>\<open>_.isNumber\<close> rejects.
\<close>

datatype jsval = Undefined | NaN | Num real

text \<open>\<^verbatim>\<open>_.isNumber\<close> of lodash: true of every number, \<open>NaN\<close> included.\<close>

fun isNumber :: "jsval \<Rightarrow> bool" where
  "isNumber Undefined = False"
| "isNumber NaN = True"
| "isNumber (Num r) = True"

text \<open>Arithmetic converts its operands to numbers; \<open>undefined\<close> converts to \<open>NaN\<close>.\<close>

fun js_sub :: "jsval \<Rightarrow> jsval \<Rightarrow> jsval" where
  "js_sub (Num a) (Num b) = Num (a - b)"
| "js_sub _ _ = NaN"

fun js_add :: "jsval \<Rightarrow> jsval \<Rightarrow> jsval" where
  "js_add (Num a) (Num b) = Num (a + b)"
| "js_add _ _ = NaN"

fun js_mul :: "jsval \<Rightarrow> jsval \<Rightarrow> jsval" where
  "js_mul (Num a) (Num b) = Num (a * b)"
| "js_mul _ _ = NaN"

text \<open>A comparison with \<open>NaN\<close> on either side is false.\<close>

fun js_lt :: "jsval \<Rightarrow> jsval \<Rightarrow> bool" where
  "js_lt (Num a) (Num b) = (a < b)"
| "js_lt _ _ = False"

fun js_le :: "jsval \<Rightarrow> jsval \<Rightarrow> bool" where
  "js_le (Num a) (Num b) = (a \<le> b)"
| "js_le _ _ = False"

fun js_gt :: "jsval \<Rightarrow> jsval \<Rightarrow> bool" where
  "js_gt (Num a) (Num b) = (a > b)"
| "js_gt _ _ = False"

text \<open>Strict equality \<^verbatim>\<open>===\<close>: \<open>NaN\<close> equals nothing, itself included.\<close>

fun js_seq :: "jsval \<Rightarrow> jsval \<Rightarrow> bool" where
  "js_seq (Num a) (Num b) = (a = b)"
| "js_seq Undefined Undefined = True"
| "js_seq _ _ = False"

fun js_abs :: "jsval \<Rightarrow> jsval" where
  "js_abs (Num a) = Num \<bar>a\<bar>"
| "js_abs _ = NaN"

text \<open>\<^verbatim>\<open>Math.round\<close> rounds to the nearest integer, a half upwards.\<close>

fun js_round :: "jsval \<Rightarrow> jsval" where
  "js_round (Num a) = Num (of_int \<lfloor>a + 1 / 2\<rfloor>)"
| "js_round _ = NaN"

text \<open>A telemetry sample is an object; reading a field it lacks gives \<open>undefined\<close>.\<close>

type_synonym jsobj = "(string \<times> jsval) list"

definition js_get :: "jsobj \<Rightarrow> string \<Rightarrow> jsval" where
  "js_get data k = (case map_of data k of None \<Rightarrow> Undefined | Some v \<Rightarrow> v)"

section \<open>Constants and the deviation function\<close>

definition MAX_THRUST :: real where
  "MAX_THRUST = 60000"

definition MIN_THRUST :: real where
  "MIN_THRUST = 10001"

definition epsilon :: real where
  "epsilon = 1 / 100"

definition deltaToGoal :: "jsval \<Rightarrow> jsval \<Rightarrow> jsval" where
  "deltaToGoal current target =
     (let diff = js_sub target current
      in if js_gt (js_abs diff) (Num epsilon) then diff else Num 0)"

section \<open>The copter\<close>

datatype phase = Setup | Connected | Waiting | TakingOff | Hovering | Moving | Landing

datatype event = Connect | Ready | Takeoff | Stabilize | Move | Settle | Land | Landed

text \<open>The name of a phase, as \<^verbatim>\<open>buildStates\<close> declares it.\<close>

fun phase_name :: "phase \<Rightarrow> string" where
  "phase_name Setup = ''setup''"
| "phase_name Connected = ''connected''"
| "phase_name Waiting = ''waiting''"
| "phase_name TakingOff = ''taking-off''"
| "phase_name Hovering = ''hovering''"
| "phase_name Moving = ''moving''"
| "phase_name Landing = ''landing''"

record setpoint_t =
  roll :: jsval
  pitch :: jsval
  yaw :: jsval
  thrust :: jsval

record goal_t = setpoint_t +
  x :: jsval
  y :: jsval
  z :: jsval

record telemetry_t =
  stabilizer :: "jsobj option"
  motor :: "jsobj option"
  acc :: "jsobj option"
  gyro :: "jsobj option"

text \<open>
  The timer behind \<^verbatim>\<open>this.flightTimer\<close>: the one-shot timeout of \<^verbatim>\<open>takeoff\<close>
  with its delay, or the interval of \<^verbatim>\<open>takeoff1\<close> with its period and the two
  variables its callback closes over (\<^verbatim>\<open>thrust\<close>, \<^verbatim>\<open>timeCounter\<close>).
\<close>

datatype flight_timer = StopThrustingUp nat | ThrustUp nat real nat

text \<open>
  The fields of a \<^verbatim>\<open>Copter\<close>. The driver is outside the repository's core: it is
  represented by what the copter asks of it, the setpoints sent (\<open>driver_sent\<close>), the
  channels subscribed to (\<open>driver_subscribed\<close>) and whether a \<^verbatim>\<open>connect\<close> is
  pending (\<open>driver_connecting\<close>). An interval timer is \<open>Some\<close> of its period in
  milliseconds while it runs. \<open>takeoffDeferred\<close> and \<open>landDeferred\<close> list the values
  that \<^verbatim>\<open>deferred.resolve\<close> has been called with, for the deferred of the latest
  \<^verbatim>\<open>takeoff\<close> and of the latest \<^verbatim>\<open>land\<close>.
\<close>

record copter =
  copterStates :: phase
  xmode :: bool
  driver_sent :: "setpoint_t list"
  driver_subscribed :: "string list"
  driver_connecting :: bool
  currentSetpoint :: setpoint_t
  telemetry :: telemetry_t
  goal :: goal_t
  nextSetpoint :: setpoint_t
  flightTimer :: "flight_timer option"
  hoverTimer :: "nat option"
  pulseTimer :: "nat option"
  takeoffDeferred :: "string list"
  landDeferred :: "string list"

text \<open>The constructor: \<^verbatim>\<open>currentSetpoint\<close> and \<^verbatim>\<open>telemetry\<close> start as \<^verbatim>\<open>{}\<close>.\<close>

definition Copter :: copter where
  "Copter =
     \<lparr> copterStates = Setup,
       xmode = False,
       driver_sent = [],
       driver_subscribed = [],
       driver_connecting = False,
       currentSetpoint = \<lparr> roll = Undefined, pitch = Undefined, yaw = Undefined, thrust = Undefined \<rparr>,
       telemetry = \<lparr> stabilizer = None, motor = None, acc = None, gyro = None \<rparr>,
       goal = \<lparr> roll = Num 0, pitch = Num 0, yaw = Num 0, thrust = Num 0,
                x = Num 0, y = Num 0, z = Num 0 \<rparr>,
       nextSetpoint = \<lparr> roll = Num 0, pitch = Num 0, yaw = Num 0, thrust = Num 0 \<rparr>,
       flightTimer = None,
       hoverTimer = None,
       pulseTimer = None,
       takeoffDeferred = [],
       landDeferred = [] \<rparr>"

subsection \<open>Property boilerplate\<close>

definition setPitch :: "jsval \<Rightarrow> copter \<Rightarrow> copter" where
  "setPitch p s = s\<lparr> nextSetpoint := (nextSetpoint s)\<lparr> pitch := p \<rparr> \<rparr>"

definition getPitch :: "copter \<Rightarrow> jsval" where
  "getPitch s = pitch (currentSetpoint s)"

definition setRoll :: "jsval \<Rightarrow> copter \<Rightarrow> copter" where
  "setRoll r s = s\<lparr> nextSetpoint := (nextSetpoint s)\<lparr> roll := r \<rparr> \<rparr>"

definition getRoll :: "copter \<Rightarrow> jsval" where
  "getRoll s = roll (currentSetpoint s)"

definition setYaw :: "jsval \<Rightarrow> copter \<Rightarrow> copter" where
  "setYaw w s = s\<lparr> nextSetpoint := (nextSetpoint s)\<lparr> yaw := w \<rparr> \<rparr>"

definition getYaw :: "copter \<Rightarrow> jsval" where
  "getYaw s = yaw (currentSetpoint s)"

definition setThrust :: "jsval \<Rightarrow> copter \<Rightarrow> copter" where
  "setThrust t s =
     (let t1 = (if \<not> isNumber t then Num 10001
                else if js_lt t (Num 10001) then Num 10001
                else if js_gt t (Num 60000) then Num 60000
                else t)
      in s\<lparr> nextSetpoint := (nextSetpoint s)\<lparr> thrust := js_round t1 \<rparr> \<rparr>)"

definition getThrust :: "copter \<Rightarrow> jsval" where
  "getThrust s = thrust (currentSetpoint s)"

subsection \<open>Lower-level control functions\<close>

text \<open>
  \<^verbatim>\<open>setpoint\<close>: the two assignments of the X-mode branch run one after the other, so
  the second reads the \<^verbatim>\<open>roll\<close> the first has just written.
\<close>

definition setpoint :: "jsval \<Rightarrow> jsval \<Rightarrow> jsval \<Rightarrow> jsval \<Rightarrow> copter \<Rightarrow> copter" where
  "setpoint r p w t s =
     (let r1 = (if xmode s then js_mul (Num (707 / 1000)) (js_sub r p) else r);
          p1 = (if xmode s then js_mul (Num (707 / 1000)) (js_add r1 p) else p);
          sp = \<lparr> roll = r1, pitch = p1, yaw = w, thrust = t \<rparr>
      in s\<lparr> currentSetpoint := sp, driver_sent := driver_sent s @ [sp] \<rparr>)"

definition pulse :: "copter \<Rightarrow> copter" where
  "pulse s =
     setpoint (roll (nextSetpoint s)) (pitch (nextSetpoint s))
       (yaw (nextSetpoint s)) (thrust (nextSetpoint s)) s"

subsection \<open>State machine ceremony\<close>

text \<open>The hooks that \<^verbatim>\<open>buildStates\<close> binds to the states.\<close>

definition enterSetup :: "copter \<Rightarrow> copter" where
  "enterSetup s = s"

definition enterWaiting :: "copter \<Rightarrow> copter" where
  "enterWaiting s = s"

definition enterTakeoff :: "copter \<Rightarrow> copter" where
  "enterTakeoff s =
     s\<lparr> goal := (goal s)\<lparr> z := Num (3 / 2), thrust := Num 35000 \<rparr>,
        pulseTimer := Some 100 \<rparr>"

definition enterHovering :: "copter \<Rightarrow> copter" where
  "enterHovering s = s\<lparr> goal := (goal s)\<lparr> z := Num 1 \<rparr> \<rparr>"

definition enterMoving :: "copter \<Rightarrow> copter" where
  "enterMoving s = s"

definition enterLanding :: "copter \<Rightarrow> copter" where
  "enterLanding s = s"

definition leaveLanding :: "copter \<Rightarrow> copter" where
  "leaveLanding s =
     setpoint (Num 0) (Num 0) (Num 0) (Num 0) (s\<lparr> hoverTimer := None, pulseTimer := None \<rparr>)"

text \<open>The \<^verbatim>\<open>enter\<close> and \<^verbatim>\<open>leave\<close> options of each \<^verbatim>\<open>.state(...)\<close>.\<close>

fun enter :: "phase \<Rightarrow> copter \<Rightarrow> copter" where
  "enter Setup = enterSetup"
| "enter Connected = (\<lambda>s. s)"
| "enter Waiting = enterWaiting"
| "enter TakingOff = enterTakeoff"
| "enter Hovering = enterHovering"
| "enter Moving = enterMoving"
| "enter Landing = enterLanding"

fun leave :: "phase \<Rightarrow> copter \<Rightarrow> copter" where
  "leave Landing = leaveLanding"
| "leave _ = (\<lambda>s. s)"

text \<open>The table of the \<^verbatim>\<open>.event(name, from, to)\<close> lines.\<close>

fun source :: "event \<Rightarrow> phase" where
  "source Connect = Setup"
| "source Ready = Connected"
| "source Takeoff = Waiting"
| "source Stabilize = TakingOff"
| "source Move = Hovering"
| "source Settle = Moving"
| "source Land = Hovering"
| "source Landed = Landing"

fun destination :: "event \<Rightarrow> phase" where
  "destination Connect = Connected"
| "destination Ready = Waiting"
| "destination Takeoff = TakingOff"
| "destination Stabilize = Hovering"
| "destination Move = Moving"
| "destination Settle = Hovering"
| "destination Land = Landing"
| "destination Landed = Waiting"

text \<open>
  A failed transition names the current phase, the attempted event and the phase the
  event requires.
\<close>

datatype error = InvalidTransition phase event phase

text \<open>
  An operation that can throw returns \<open>Inr\<close> of the state it leaves, or \<open>Inl\<close> of the
  error together with the state at the moment of the throw.
\<close>

type_synonym outcome = "(error \<times> copter) + copter"

text \<open>
  Modelled from the spec: the event methods of \<^verbatim>\<open>this.copterStates\<close>. They belong to
  the package \<^verbatim>\<open>state-machine\<close>, which \<^verbatim>\<open>copter.js\<close> only requires; its source is
  not among the repository's files. Following section 4.1 of the specification, an
  event fired in a phase other than its source fails with \<open>InvalidTransition\<close> and
  leaves the machine as it was; fired in its source it runs the leave-hook of the
  source, sets the current phase, and runs the enter-hook of the destination. (The
  \<^verbatim>\<open>onChange\<close> observer only writes to the console.) The states, hooks and events
  themselves are those of \<^verbatim>\<open>buildStates\<close>.
\<close>

definition fire :: "event \<Rightarrow> copter \<Rightarrow> outcome" where
  "fire ev s =
     (if copterStates s = source ev
      then Inr (enter (destination ev) ((leave (source ev) s)\<lparr> copterStates := destination ev \<rparr>))
      else Inl (InvalidTransition (copterStates s) ev (source ev), s))"

definition currentState :: "copter \<Rightarrow> string" where
  "currentState s = phase_name (copterStates s)"

subsection \<open>The public API\<close>

text \<open>
  \<^verbatim>\<open>connect\<close> fires \<^verbatim>\<open>connect\<close> and asks the driver to connect; \<open>connect_then\<close> is
  the callback that runs when the driver has connected.
\<close>

definition connect :: "copter \<Rightarrow> outcome" where
  "connect s =
     (case fire Connect s of
        Inl e \<Rightarrow> Inl e
      | Inr s1 \<Rightarrow> Inr (s1\<lparr> driver_connecting := True \<rparr>))"

definition connect_then :: "copter \<Rightarrow> outcome" where
  "connect_then s =
     fire Ready
       (s\<lparr> driver_connecting := False,
           driver_subscribed :=
             driver_subscribed s @ [''motor'', ''stabilizer'', ''accelerometer'', ''gyro''] \<rparr>)"

text \<open>
  \<^verbatim>\<open>takeoff\<close> arms a timeout of 2000 ms for \<open>stopThrustingUp\<close>, which fires
  \<^verbatim>\<open>stabilize\<close> and then resolves the deferred with \<^verbatim>\<open>'OK'\<close>.
\<close>

definition takeoff :: "copter \<Rightarrow> outcome" where
  "takeoff s =
     (case fire Takeoff s of
        Inl e \<Rightarrow> Inl e
      | Inr s1 \<Rightarrow> Inr (s1\<lparr> flightTimer := Some (StopThrustingUp 2000), takeoffDeferred := [] \<rparr>))"

definition stopThrustingUp :: "copter \<Rightarrow> outcome" where
  "stopThrustingUp s =
     (case fire Stabilize s of
        Inl e \<Rightarrow> Inl e
      | Inr s1 \<Rightarrow> Inr (s1\<lparr> takeoffDeferred := takeoffDeferred s1 @ [''OK''] \<rparr>))"

text \<open>
  \<^verbatim>\<open>takeoff1\<close>, the time-stepped ramp. \<open>thrustup\<close> takes the closure's \<^verbatim>\<open>thrust\<close>
  and \<^verbatim>\<open>timeCounter\<close> and returns them with the copter; \<open>thrustup_write\<close> is its
  last two statements.
\<close>

definition thrustup_write :: "real \<Rightarrow> nat \<Rightarrow> copter \<Rightarrow> real \<times> nat \<times> copter" where
  "thrustup_write th tc s =
     (th, tc, (let s1 = setThrust (Num th) s in s1\<lparr> goal := (goal s1)\<lparr> thrust := Num th \<rparr> \<rparr>))"

definition thrustup :: "real \<Rightarrow> nat \<Rightarrow> copter \<Rightarrow> real \<times> nat \<times> copter" where
  "thrustup th tc s =
     (if th = 0 then (th, tc, s)
      else if tc = 0 then
        (if th + 500 \<ge> 39601 then thrustup_write 39601 1 s
         else thrustup_write (th + 500) tc s)
      else if tc \<ge> 4 then
        (if th - 500 < 37700 then
           (if tc \<ge> 4 + 2
            then (0, tc, s\<lparr> takeoffDeferred := takeoffDeferred s @ [''OK''] \<rparr>)
            else thrustup_write 37700 (tc + 1) s)
         else thrustup_write (th - 500) tc s)
      else thrustup_write th (tc + 1) s)"

definition takeoff1 :: "copter \<Rightarrow> outcome" where
  "takeoff1 s =
     (case fire Takeoff s of
        Inl e \<Rightarrow> Inl e
      | Inr s1 \<Rightarrow> Inr (s1\<lparr> flightTimer := Some (ThrustUp 250 37700 0), takeoffDeferred := [] \<rparr>))"

text \<open>
  \<^verbatim>\<open>land\<close> fires \<^verbatim>\<open>land\<close>, clears the flight timer and starts the interval of
  \<open>landCurve\<close>, 250 ms. In \<open>landCurve\<close>, \<^verbatim>\<open>self.thrust\<close> is read through the getter
  (\<open>currentSetpoint\<close>) and written through the setter (\<open>nextSetpoint\<close>).
\<close>

definition landCurve :: "copter \<Rightarrow> outcome" where
  "landCurve s =
     (let th0 = js_sub (getThrust s) (Num 1000);
          th = (if js_le th0 (Num MIN_THRUST) then Num MIN_THRUST else th0);
          s1 = s\<lparr> goal := (goal s)\<lparr> thrust := th \<rparr> \<rparr>;
          s2 = setThrust th s1
      in if js_seq th (Num MIN_THRUST)
         then (case fire Landed s2 of
                 Inl e \<Rightarrow> Inl e
               | Inr s3 \<Rightarrow> Inr (s3\<lparr> landDeferred := landDeferred s3 @ [currentState s3] \<rparr>))
         else Inr s2)"

definition land :: "copter \<Rightarrow> outcome" where
  "land s =
     (case fire Land s of
        Inl e \<Rightarrow> Inl e
      | Inr s1 \<Rightarrow> Inr (s1\<lparr> flightTimer := None, hoverTimer := Some 250, landDeferred := [] \<rparr>))"

definition hover :: "copter \<Rightarrow> outcome" where
  "hover s = fire Stabilize s"

subsection \<open>Telemetry handlers\<close>

definition handleStabilizerTelemetry :: "jsobj \<Rightarrow> copter \<Rightarrow> copter" where
  "handleStabilizerTelemetry data s =
     (let s1 = s\<lparr> telemetry := (telemetry s)\<lparr> stabilizer := Some data \<rparr> \<rparr>;
          thrustDelta = deltaToGoal (js_get data ''thrust'') (thrust (goal s1));
          rollDelta = deltaToGoal (js_get data ''roll'') (roll (goal s1));
          pitchDelta = deltaToGoal (js_get data ''pitch'') (pitch (goal s1));
          yawDelta = deltaToGoal (js_get data ''yaw'') (yaw (goal s1))
      in case copterStates s1 of
           TakingOff \<Rightarrow> setYaw (Num 0) (setPitch (Num 0) (setRoll (Num 0) s1))
         | Moving \<Rightarrow> setYaw (Num 0) (setPitch (Num 0) (setRoll (Num 0) s1))
         | Hovering \<Rightarrow> setYaw (Num 0) (setPitch (Num 0) (setRoll (Num 0) s1))
         | _ \<Rightarrow> s1)"

definition handleMotorTelemetry :: "jsobj \<Rightarrow> copter \<Rightarrow> copter" where
  "handleMotorTelemetry data s =
     (let s1 = s\<lparr> telemetry := (telemetry s)\<lparr> motor := Some data \<rparr> \<rparr>
      in case copterStates s1 of
           TakingOff \<Rightarrow> s1
         | _ \<Rightarrow> s1)"

definition handleAccTelemetry :: "jsobj \<Rightarrow> copter \<Rightarrow> copter" where
  "handleAccTelemetry data s =
     (let s1 = s\<lparr> telemetry := (telemetry s)\<lparr> acc := Some data \<rparr> \<rparr>;
          zDelta = deltaToGoal (js_get data ''z'') (z (goal s1));
          s2 = s1\<lparr> goal := (goal s1)\<lparr> thrust :=
                     js_add (thrust (goal s1)) (js_mul (Num 1250) zDelta) \<rparr> \<rparr>;
          adjusted = (if \<not> js_seq zDelta (Num 0) then setThrust (thrust (goal s2)) s2 else s1)
      in case copterStates s1 of
           TakingOff \<Rightarrow> adjusted
         | Hovering \<Rightarrow> adjusted
         | _ \<Rightarrow> s1)"

definition handleGyroTelemetry :: "jsobj \<Rightarrow> copter \<Rightarrow> copter" where
  "handleGyroTelemetry data s = s\<lparr> telemetry := (telemetry s)\<lparr> gyro := Some data \<rparr> \<rparr>"

section \<open>The copter as a transition system\<close>

text \<open>
  Everything runs on one thread, so a run of the copter is a sequence of actions: a call
  of the public API, the driver's connect callback, a tick of one of the three timers,
  or a telemetry sample. A timer ticks only while it is set; \<^verbatim>\<open>clearInterval\<close> is
  taken to cancel a timeout as well as an interval. Real time is not modelled: the
  periods and the delay are kept as the numbers the timers were set with.
\<close>

datatype action =
    CallConnect | DriverConnected
  | CallTakeoff | CallTakeoff1 | CallLand | CallHover
  | CallSetRoll jsval | CallSetPitch jsval | CallSetYaw jsval | CallSetThrust jsval
  | SetXmode bool
  | PulseTick | LandTick | FlightTick
  | StabilizerSample jsobj | MotorSample jsobj | AccSample jsobj | GyroSample jsobj

fun enabled :: "action \<Rightarrow> copter \<Rightarrow> bool" where
  "enabled DriverConnected s = driver_connecting s"
| "enabled PulseTick s = (pulseTimer s \<noteq> None)"
| "enabled LandTick s = (hoverTimer s \<noteq> None)"
| "enabled FlightTick s = (flightTimer s \<noteq> None)"
| "enabled _ s = True"

definition flightTick :: "copter \<Rightarrow> outcome" where
  "flightTick s =
     (case flightTimer s of
        None \<Rightarrow> Inr s
      | Some (StopThrustingUp d) \<Rightarrow> stopThrustingUp (s\<lparr> flightTimer := None \<rparr>)
      | Some (ThrustUp d th tc) \<Rightarrow>
          (case thrustup th tc s of
             (th1, tc1, s1) \<Rightarrow> Inr (s1\<lparr> flightTimer := Some (ThrustUp d th1 tc1) \<rparr>)))"

fun step :: "action \<Rightarrow> copter \<Rightarrow> outcome" where
  "step CallConnect s = connect s"
| "step DriverConnected s = connect_then s"
| "step CallTakeoff s = takeoff s"
| "step CallTakeoff1 s = takeoff1 s"
| "step CallLand s = land s"
| "step CallHover s = hover s"
| "step (CallSetRoll v) s = Inr (setRoll v s)"
| "step (CallSetPitch v) s = Inr (setPitch v s)"
| "step (CallSetYaw v) s = Inr (setYaw v s)"
| "step (CallSetThrust v) s = Inr (setThrust v s)"
| "step (SetXmode b) s = Inr (s\<lparr> xmode := b \<rparr>)"
| "step PulseTick s = Inr (pulse s)"
| "step LandTick s = landCurve s"
| "step FlightTick s = flightTick s"
| "step (StabilizerSample data) s = Inr (handleStabilizerTelemetry data s)"
| "step (MotorSample data) s = Inr (handleMotorTelemetry data s)"
| "step (AccSample data) s = Inr (handleAccTelemetry data s)"
| "step (GyroSample data) s = Inr (handleGyroTelemetry data s)"

text \<open>The state an outcome leaves, thrown or not.\<close>

fun after :: "outcome \<Rightarrow> copter" where
  "after (Inl (e, s)) = s"
| "after (Inr s) = s"

text \<open>A run: the actions in order, one that is not enabled being skipped.\<close>

fun run :: "action list \<Rightarrow> copter \<Rightarrow> copter" where
  "run [] s = s"
| "run (a # as) s = run as (if enabled a s then after (step a s) else s)"

inductive reachable :: "copter \<Rightarrow> bool" where
  reach_init: "reachable Copter"
| reach_step: "reachable s \<Longrightarrow> enabled a s \<Longrightarrow> reachable (after (step a s))"

section \<open>Scenarios and invariants\<close>

text \<open>
  What holds of the timers in every reachable state: the pulse timer runs from the
  entry into \<^verbatim>\<open>taking-off\<close> until \<^verbatim>\<open>landing\<close> is left, the landing interval runs
  exactly while the phase is \<^verbatim>\<open>landing\<close>, during \<^verbatim>\<open>landing\<close> the deferred of
  \<^verbatim>\<open>land\<close> is still unresolved, and a flight timer is pending only in flight. So
  each of the three timer fields is empty at the moment the code sets it: no timer is
  lost by overwriting its handle.
\<close>

definition timers_inv :: "copter \<Rightarrow> bool" where
  "timers_inv s =
     ((pulseTimer s \<noteq> None) = (copterStates s \<in> {TakingOff, Hovering, Moving, Landing})
      \<and> (hoverTimer s \<noteq> None) = (copterStates s = Landing)
      \<and> (if copterStates s = Landing then landDeferred s = [] \<and> hoverTimer s = Some 250 else True)
      \<and> (flightTimer s = None \<or> copterStates s \<in> {TakingOff, Hovering, Moving}))"

text \<open>
  The actions other than the two that fire \<^verbatim>\<open>stabilize\<close>: \<^verbatim>\<open>hover()\<close> and the
  tick of the flight timer.
\<close>

definition keeps_phase :: "action \<Rightarrow> bool" where
  "keeps_phase a = (a \<noteq> CallHover \<and> a \<noteq> FlightTick)"

text \<open>
  Concrete runs from a new copter: connected and waiting; taking off, after one pulse;
  landing from a hover with thrust 37700 commanded and sent; landing with thrust 10500
  commanded and sent.
\<close>

definition sc_waiting :: copter where
  "sc_waiting = run [CallConnect, DriverConnected] Copter"

definition sc_pulsed :: copter where
  "sc_pulsed = run [CallConnect, DriverConnected, CallTakeoff, PulseTick] Copter"

definition sc_landing :: copter where
  "sc_landing =
     run [CallConnect, DriverConnected, CallTakeoff, FlightTick,
          CallSetThrust (Num 37700), PulseTick, CallLand] Copter"

definition sc_touchdown :: copter where
  "sc_touchdown =
     run [CallConnect, DriverConnected, CallTakeoff, FlightTick,
          CallSetThrust (Num 10500), PulseTick, CallLand] Copter"


definition sc_unpulsed_landing :: copter where
  "sc_unpulsed_landing =
     run [CallConnect, DriverConnected, CallTakeoff, CallHover, CallLand, LandTick] Copter"

definition sc_interleaving :: "action list" where
  "sc_interleaving = [AccSample [(''z'', Num (1 / 2))], PulseTick, StabilizerSample [], CallLand]"

text \<open>
  The landing ramp with the pulse timer running: \<open>n\<close> rounds of a landing tick
  followed by a pulse tick. \<open>ramping k s\<close>: the copter is landing, both timers run, the
  thrust last sent is the integer \<open>k\<close>, and the deferred of \<^verbatim>\<open>land\<close> is unresolved.
\<close>

definition sc_ramp :: "nat \<Rightarrow> action list" where
  "sc_ramp n = concat (replicate n [LandTick, PulseTick])"

definition ramping :: "int \<Rightarrow> copter \<Rightarrow> bool" where
  "ramping k s =
     (copterStates s = Landing \<and> hoverTimer s = Some 250 \<and> pulseTimer s = Some 100
      \<and> thrust (currentSetpoint s) = Num (of_int k) \<and> landDeferred s = [])"

section \<open>Lemmas on runs\<close>

lemmas hook_defs = enterSetup_def enterWaiting_def enterTakeoff_def enterHovering_def
  enterMoving_def enterLanding_def leaveLanding_def setpoint_def

lemmas setter_defs = setRoll_def setPitch_def setYaw_def setThrust_def

lemmas op_defs = connect_def connect_then_def takeoff_def takeoff1_def land_def hover_def
  landCurve_def flightTick_def stopThrustingUp_def pulse_def fire_def

lemma run_append: "run (as @ bs) s = run bs (run as s)"
  by (induction as arbitrary: s) simp_all

lemma reachable_run: "reachable s \<Longrightarrow> reachable (run as s)"
  by (induction as arbitrary: s) (simp_all add: reachable.reach_step)

lemma timers_inv_init: "timers_inv Copter"
  by (simp add: timers_inv_def Copter_def)

lemma timers_inv_step:
  assumes "timers_inv s" and "enabled a s"
  shows "timers_inv (after (step a s))"
proof (cases a)
  case CallConnect
  with assms show ?thesis
    by (cases "copterStates s") (simp_all add: timers_inv_def connect_def fire_def hook_defs Let_def)
next
  case DriverConnected
  with assms show ?thesis
    by (cases "copterStates s") (simp_all add: timers_inv_def connect_then_def fire_def hook_defs Let_def)
next
  case CallTakeoff
  with assms show ?thesis
    by (cases "copterStates s") (simp_all add: timers_inv_def takeoff_def fire_def hook_defs Let_def)
next
  case CallTakeoff1
  with assms show ?thesis
    by (cases "copterStates s") (simp_all add: timers_inv_def takeoff1_def fire_def hook_defs Let_def)
next
  case CallLand
  with assms show ?thesis
    by (cases "copterStates s") (simp_all add: timers_inv_def land_def fire_def hook_defs Let_def)
next
  case CallHover
  with assms show ?thesis
    by (cases "copterStates s") (simp_all add: timers_inv_def hover_def fire_def hook_defs Let_def)
next
  case PulseTick
  with assms show ?thesis
    by (simp add: timers_inv_def pulse_def setpoint_def Let_def)
next
  case LandTick
  with assms show ?thesis
    by (cases "copterStates s")
       (simp_all add: timers_inv_def landCurve_def fire_def hook_defs setter_defs Let_def)
next
  case FlightTick
  with assms show ?thesis
    by (cases "copterStates s")
       (auto simp add: timers_inv_def flightTick_def stopThrustingUp_def thrustup_def
          thrustup_write_def fire_def hook_defs setter_defs Let_def
          split: option.splits flight_timer.splits prod.splits if_splits)
next
  case (StabilizerSample data)
  with assms show ?thesis
    by (cases "copterStates s")
       (simp_all add: timers_inv_def handleStabilizerTelemetry_def setter_defs Let_def)
next
  case (MotorSample data)
  with assms show ?thesis
    by (cases "copterStates s") (simp_all add: timers_inv_def handleMotorTelemetry_def Let_def)
next
  case (AccSample data)
  with assms show ?thesis
    by (cases "copterStates s")
       (simp_all add: timers_inv_def handleAccTelemetry_def setter_defs Let_def)
next
  case (GyroSample data)
  with assms show ?thesis
    by (simp add: timers_inv_def handleGyroTelemetry_def)
qed (use assms in \<open>simp_all add: timers_inv_def setter_defs Let_def\<close>)

lemma reachable_timers_inv: "reachable s \<Longrightarrow> timers_inv s"
  by (induction rule: reachable.induct) (simp_all add: timers_inv_init timers_inv_step)

lemma sc_waiting_phase: "copterStates sc_waiting = Waiting"
  by (simp add: sc_waiting_def Copter_def op_defs hook_defs)

lemma sc_pulsed_eq:
  "sc_pulsed =
     Copter\<lparr> copterStates := TakingOff,
       driver_subscribed := [''motor'', ''stabilizer'', ''accelerometer'', ''gyro''],
       driver_sent := [\<lparr> roll = Num 0, pitch = Num 0, yaw = Num 0, thrust = Num 0 \<rparr>],
       currentSetpoint := \<lparr> roll = Num 0, pitch = Num 0, yaw = Num 0, thrust = Num 0 \<rparr>,
       goal := (goal Copter)\<lparr> z := Num (3 / 2), thrust := Num 35000 \<rparr>,
       flightTimer := Some (StopThrustingUp 2000), pulseTimer := Some 100 \<rparr>"
  by (simp add: sc_pulsed_def Copter_def op_defs hook_defs Let_def)

lemma sc_landing_eq:
  "sc_landing =
     Copter\<lparr> copterStates := Landing,
       driver_subscribed := [''motor'', ''stabilizer'', ''accelerometer'', ''gyro''],
       driver_sent := [\<lparr> roll = Num 0, pitch = Num 0, yaw = Num 0, thrust = Num 37700 \<rparr>],
       currentSetpoint := \<lparr> roll = Num 0, pitch = Num 0, yaw = Num 0, thrust = Num 37700 \<rparr>,
       nextSetpoint := \<lparr> roll = Num 0, pitch = Num 0, yaw = Num 0, thrust = Num 37700 \<rparr>,
       goal := (goal Copter)\<lparr> z := Num 1, thrust := Num 35000 \<rparr>,
       hoverTimer := Some 250, pulseTimer := Some 100, takeoffDeferred := [''OK''] \<rparr>"
  by (simp add: sc_landing_def Copter_def op_defs hook_defs setter_defs Let_def)

lemma sc_touchdown_eq:
  "sc_touchdown =
     Copter\<lparr> copterStates := Landing,
       driver_subscribed := [''motor'', ''stabilizer'', ''accelerometer'', ''gyro''],
       driver_sent := [\<lparr> roll = Num 0, pitch = Num 0, yaw = Num 0, thrust = Num 10500 \<rparr>],
       currentSetpoint := \<lparr> roll = Num 0, pitch = Num 0, yaw = Num 0, thrust = Num 10500 \<rparr>,
       nextSetpoint := \<lparr> roll = Num 0, pitch = Num 0, yaw = Num 0, thrust = Num 10500 \<rparr>,
       goal := (goal Copter)\<lparr> z := Num 1, thrust := Num 35000 \<rparr>,
       hoverTimer := Some 250, pulseTimer := Some 100, takeoffDeferred := [''OK''] \<rparr>"
  by (simp add: sc_touchdown_def Copter_def op_defs hook_defs setter_defs Let_def)

lemma reachable_sc_pulsed: "reachable sc_pulsed"
  unfolding sc_pulsed_def by (rule reachable_run) (rule reachable.reach_init)

lemma reachable_sc_landing: "reachable sc_landing"
  unfolding sc_landing_def by (rule reachable_run) (rule reachable.reach_init)

lemma reachable_sc_touchdown: "reachable sc_touchdown"
  unfolding sc_touchdown_def by (rule reachable_run) (rule reachable.reach_init)

section \<open>The setpoint pipeline\<close>

text \<open>
  C1. With X-mode enabled, \<^verbatim>\<open>setpoint\<close> stores \<open>roll' = 0.707 * (roll - pitch)\<close>, but
  its \<open>pitch'\<close> is computed from the roll it has just overwritten:
  \<open>pitch' = 0.707 * (roll' + pitch)\<close>, not \<open>0.707 * (roll + pitch)\<close>. At roll 10 and
  pitch 4 it stores roll 4.242 and pitch 5.827094, which is not within 0.001 of 9.898.
  With X-mode disabled the four values are stored and sent unchanged.
\<close>

theorem setpoint_xmode_sequential:
  "currentSetpoint (setpoint (Num r) (Num p) w t (s\<lparr> xmode := True \<rparr>)) =
     \<lparr> roll = Num (707 / 1000 * (r - p)),
       pitch = Num (707 / 1000 * (707 / 1000 * (r - p) + p)), yaw = w, thrust = t \<rparr>
   \<and> currentSetpoint (setpoint (Num 10) (Num 4) w t (s\<lparr> xmode := True \<rparr>)) =
     \<lparr> roll = Num (4242 / 1000), pitch = Num (5827094 / 1000000), yaw = w, thrust = t \<rparr>
   \<and> \<not> \<bar>5827094 / 1000000 - 9898 / 1000\<bar> \<le> (1 / 1000 :: real)
   \<and> setpoint a b w t (s\<lparr> xmode := False \<rparr>) =
       s\<lparr> xmode := False, currentSetpoint := \<lparr> roll = a, pitch = b, yaw = w, thrust = t \<rparr>,
          driver_sent := driver_sent s @ [\<lparr> roll = a, pitch = b, yaw = w, thrust = t \<rparr>] \<rparr>"
  by (simp add: setpoint_def Let_def)

section \<open>The state machine\<close>

text \<open>
  An event fired outside its source phase fails with \<open>InvalidTransition\<close> and leaves the
  copter as it was. The API methods fire their event first and catch nothing, so the
  failure reaches their caller with the copter unchanged.
\<close>

lemma api_call_fails_unchanged:
  assumes "copterStates s \<noteq> source ev"
  shows "fire ev s = Inl (InvalidTransition (copterStates s) ev (source ev), s)
     \<and> (if ev = Connect then connect s = fire ev s else True)
     \<and> (if ev = Takeoff then takeoff s = fire ev s \<and> takeoff1 s = fire ev s else True)
     \<and> (if ev = Stabilize then hover s = fire ev s else True)
     \<and> (if ev = Land then land s = fire ev s else True)"
proof -
  from assms have "fire ev s = Inl (InvalidTransition (copterStates s) ev (source ev), s)"
    by (simp add: fire_def)
  then show ?thesis
    unfolding connect_def takeoff_def takeoff1_def hover_def land_def
    by (cases ev) simp_all
qed




section \<open>The pulse timer\<close>

text \<open>
  C3, as amended. In every reachable state the pulse timer is active if and only if the
  phase is \<^verbatim>\<open>taking-off\<close>, \<^verbatim>\<open>hovering\<close>, \<^verbatim>\<open>moving\<close> or \<^verbatim>\<open>landing\<close>: it is started
  on entering \<^verbatim>\<open>taking-off\<close> and stopped only on leaving \<^verbatim>\<open>landing\<close>, so it is
  not active in \<^verbatim>\<open>waiting\<close>, \<^verbatim>\<open>setup\<close> or \<^verbatim>\<open>connected\<close>.
\<close>

theorem pulse_timer_active_iff:
  "reachable s \<Longrightarrow>
     (pulseTimer s \<noteq> None) = (copterStates s \<in> {TakingOff, Hovering, Moving, Landing})"
  using reachable_timers_inv [of s] by (simp add: timers_inv_def)

theorem pulse_timer_active_iff_witness:
  "reachable sc_pulsed
   \<and> (pulseTimer sc_pulsed \<noteq> None) = (copterStates sc_pulsed \<in> {TakingOff, Hovering, Moving, Landing})
   \<and> pulseTimer sc_pulsed = Some 100"
  using reachable_sc_pulsed pulse_timer_active_iff [OF reachable_sc_pulsed]
  by (simp add: sc_pulsed_eq)

text \<open>
  The claim as stated fails in the reachable state \<open>sc_landing\<close>: the phase is
  \<^verbatim>\<open>landing\<close> and the pulse timer is running.
\<close>

theorem pulse_timer_active_while_landing:
  "reachable sc_landing
   \<and> copterStates sc_landing = Landing
   \<and> pulseTimer sc_landing = Some 100
   \<and> \<not> ((pulseTimer sc_landing \<noteq> None) = (copterStates sc_landing \<in> {TakingOff, Hovering, Moving}))"
  using reachable_sc_landing by (simp add: sc_landing_eq)

section \<open>The altitude handler\<close>

text \<open>
  C4, as amended. For an accelerometer sample with a numeric \<open>z\<close>, delivered while the
  phase is \<^verbatim>\<open>taking-off\<close> or \<^verbatim>\<open>hovering\<close>: if \<open>\<bar>goal.z - sample.z\<bar> > 0.01\<close> then
  \<open>goal.thrust\<close> increases by exactly \<open>1250 * (goal.z - sample.z)\<close>, unclamped, and the
  new value, clamped to \<open>[10001, 60000]\<close> and rounded, is staged into
  \<open>nextSetpoint.thrust\<close> through the public setter; otherwise \<open>goal.thrust\<close> and
  \<open>nextSetpoint\<close> are unchanged. In both cases the value the thrust getter returns
  (\<open>currentSetpoint.thrust\<close>) is unchanged: it follows only at the next pulse tick.
\<close>

theorem handleAccTelemetry_adjusts:
  assumes "copterStates s = TakingOff \<or> copterStates s = Hovering"
    and "js_get data ''z'' = Num a" and "z (goal s) = Num g" and "thrust (goal s) = Num t"
  shows "handleAccTelemetry data s =
     (if \<bar>g - a\<bar> > 1 / 100
      then s\<lparr> telemetry := (telemetry s)\<lparr> acc := Some data \<rparr>,
              goal := (goal s)\<lparr> thrust := Num (t + 1250 * (g - a)) \<rparr>,
              nextSetpoint := (nextSetpoint s)\<lparr> thrust :=
                (if t + 1250 * (g - a) < 10001 then Num 10001
                 else if t + 1250 * (g - a) > 60000 then Num 60000
                 else Num (of_int (round (t + 1250 * (g - a))))) \<rparr> \<rparr>
      else s\<lparr> telemetry := (telemetry s)\<lparr> acc := Some data \<rparr> \<rparr>)
     \<and> getThrust (handleAccTelemetry data s) = getThrust s"
  using assms
  by (auto simp add: handleAccTelemetry_def deltaToGoal_def epsilon_def setThrust_def
        getThrust_def Let_def round_def)

theorem handleAccTelemetry_adjusts_witness:
  "handleAccTelemetry [(''z'', Num (1 / 2))] sc_pulsed =
     sc_pulsed\<lparr> telemetry := (telemetry sc_pulsed)\<lparr> acc := Some [(''z'', Num (1 / 2))] \<rparr>,
       goal := (goal sc_pulsed)\<lparr> thrust := Num 36250 \<rparr>,
       nextSetpoint := (nextSetpoint sc_pulsed)\<lparr> thrust := Num 36250 \<rparr> \<rparr>
   \<and> getThrust (handleAccTelemetry [(''z'', Num (1 / 2))] sc_pulsed) = getThrust sc_pulsed"
proof -
  have 1: "copterStates sc_pulsed = TakingOff \<or> copterStates sc_pulsed = Hovering"
    by (simp add: sc_pulsed_eq)
  have 2: "js_get [(''z'', Num (1 / 2))] ''z'' = Num (1 / 2)"
    by (simp add: js_get_def)
  have 3: "z (goal sc_pulsed) = Num (3 / 2)"
    by (simp add: sc_pulsed_eq)
  have 4: "thrust (goal sc_pulsed) = Num 35000"
    by (simp add: sc_pulsed_eq)
  have 5: "round (36250 :: real) = 36250"
    using round_of_int [of 36250] by simp
  show ?thesis
    using handleAccTelemetry_adjusts [OF 1 2 3 4] 5 by (simp add: getThrust_def)
qed

text \<open>
  The claim as stated fails in \<open>sc_pulsed\<close> (taking off, \<open>goal.z = 1.5\<close>, thrust 0
  last sent) at the sample \<^verbatim>\<open>{z: 0.5}\<close>: \<open>goal.thrust\<close> becomes 36250, and the thrust
  getter still returns 0.
\<close>

theorem handleAccTelemetry_getter_unchanged:
  "thrust (goal (handleAccTelemetry [(''z'', Num (1 / 2))] sc_pulsed)) = Num 36250
   \<and> getThrust (handleAccTelemetry [(''z'', Num (1 / 2))] sc_pulsed) = Num 0
   \<and> \<not> (getThrust (handleAccTelemetry [(''z'', Num (1 / 2))] sc_pulsed)
           = thrust (goal (handleAccTelemetry [(''z'', Num (1 / 2))] sc_pulsed)))"
  by (simp add: sc_pulsed_eq Copter_def handleAccTelemetry_def deltaToGoal_def epsilon_def
        js_get_def setThrust_def getThrust_def Let_def)

section \<open>Landing\<close>

text \<open>
  C5, as amended. \<^verbatim>\<open>land()\<close> in phase \<^verbatim>\<open>hovering\<close> enters \<^verbatim>\<open>landing\<close> and starts
  the landing interval (250 ms) with its deferred unresolved. In a reachable landing
  state where the thrust getter returns the number \<open>T\<close>, a landing tick takes
  \<open>T - 1000\<close> floored at 10001, writes it into \<open>goal.thrust\<close> and stages it, rounded
  (and capped at 60000), into \<open>nextSetpoint.thrust\<close> through the public setter; the
  value the getter returns is not changed by such a tick and follows at the next pulse
  tick. On the tick where the value is 10001 the machine fires \<^verbatim>\<open>landed\<close>: the phase
  becomes \<^verbatim>\<open>waiting\<close>, both timers stop, one zero setpoint is sent, and the deferred
  is resolved with \<^verbatim>\<open>'waiting'\<close>, for the first and only time, no further landing
  tick being enabled.
\<close>

theorem landCurve_tick:
  assumes "reachable s" and "copterStates s = Landing" and "getThrust s = Num T"
  shows "hoverTimer s = Some 250
     \<and> landCurve s =
        (if T - 1000 \<le> 10001
         then Inr (s\<lparr> copterStates := Waiting,
                 goal := (goal s)\<lparr> thrust := Num 10001 \<rparr>,
                 nextSetpoint := (nextSetpoint s)\<lparr> thrust := Num 10001 \<rparr>,
                 hoverTimer := None, pulseTimer := None,
                 currentSetpoint := \<lparr> roll = Num 0, pitch = Num 0, yaw = Num 0, thrust = Num 0 \<rparr>,
                 driver_sent := driver_sent s @
                   [\<lparr> roll = Num 0, pitch = Num 0, yaw = Num 0, thrust = Num 0 \<rparr>],
                 landDeferred := [''waiting''] \<rparr>)
         else Inr (s\<lparr> goal := (goal s)\<lparr> thrust := Num (T - 1000) \<rparr>,
                 nextSetpoint := (nextSetpoint s)\<lparr> thrust :=
                   (if T - 1000 > 60000 then Num 60000
                    else Num (of_int (round (T - 1000)))) \<rparr> \<rparr>))
     \<and> getThrust (after (landCurve s)) = (if T - 1000 \<le> 10001 then Num 0 else Num T)
     \<and> enabled LandTick (after (landCurve s)) = (\<not> T - 1000 \<le> 10001)
     \<and> land h =
        (if copterStates h = Hovering
         then Inr (h\<lparr> copterStates := Landing, flightTimer := None,
                 hoverTimer := Some 250, landDeferred := [] \<rparr>)
         else Inl (InvalidTransition (copterStates h) Land Hovering, h))"
proof -
  from assms(1) have "timers_inv s"
    by (rule reachable_timers_inv)
  with assms(2) have d: "landDeferred s = []" and h: "hoverTimer s = Some 250"
    by (simp_all add: timers_inv_def)
  have l: "land h =
        (if copterStates h = Hovering
         then Inr (h\<lparr> copterStates := Landing, flightTimer := None,
                 hoverTimer := Some 250, landDeferred := [] \<rparr>)
         else Inl (InvalidTransition (copterStates h) Land Hovering, h))"
    by (simp add: land_def fire_def hook_defs)
  from assms(2,3) d h have
    "hoverTimer s = Some 250
     \<and> landCurve s =
        (if T - 1000 \<le> 10001
         then Inr (s\<lparr> copterStates := Waiting,
                 goal := (goal s)\<lparr> thrust := Num 10001 \<rparr>,
                 nextSetpoint := (nextSetpoint s)\<lparr> thrust := Num 10001 \<rparr>,
                 hoverTimer := None, pulseTimer := None,
                 currentSetpoint := \<lparr> roll = Num 0, pitch = Num 0, yaw = Num 0, thrust = Num 0 \<rparr>,
                 driver_sent := driver_sent s @
                   [\<lparr> roll = Num 0, pitch = Num 0, yaw = Num 0, thrust = Num 0 \<rparr>],
                 landDeferred := [''waiting''] \<rparr>)
         else Inr (s\<lparr> goal := (goal s)\<lparr> thrust := Num (T - 1000) \<rparr>,
                 nextSetpoint := (nextSetpoint s)\<lparr> thrust :=
                   (if T - 1000 > 60000 then Num 60000
                    else Num (of_int (round (T - 1000)))) \<rparr> \<rparr>))
     \<and> getThrust (after (landCurve s)) = (if T - 1000 \<le> 10001 then Num 0 else Num T)
     \<and> enabled LandTick (after (landCurve s)) = (\<not> T - 1000 \<le> 10001)"
    by (simp add: landCurve_def MIN_THRUST_def setThrust_def getThrust_def fire_def
          hook_defs currentState_def Let_def round_def)
  with l show ?thesis
    by blast
qed

theorem landCurve_tick_witness:
  "hoverTimer sc_landing = Some 250
   \<and> landCurve sc_landing =
       Inr (sc_landing\<lparr> goal := (goal sc_landing)\<lparr> thrust := Num 36700 \<rparr>,
              nextSetpoint := (nextSetpoint sc_landing)\<lparr> thrust := Num 36700 \<rparr> \<rparr>)
   \<and> copterStates (after (landCurve sc_touchdown)) = Waiting
   \<and> landDeferred (after (landCurve sc_touchdown)) = [''waiting'']
   \<and> thrust (goal (after (landCurve sc_touchdown))) = Num 10001
   \<and> \<not> enabled LandTick (after (landCurve sc_touchdown))"
proof -
  have 1: "copterStates sc_landing = Landing" and 2: "getThrust sc_landing = Num 37700"
    by (simp_all add: sc_landing_eq getThrust_def)
  have 3: "copterStates sc_touchdown = Landing" and 4: "getThrust sc_touchdown = Num 10500"
    by (simp_all add: sc_touchdown_eq getThrust_def)
  have 5: "round (36700 :: real) = 36700"
    using round_of_int [of 36700] by simp
  show ?thesis
    using landCurve_tick [OF reachable_sc_landing 1 2]
      landCurve_tick [OF reachable_sc_touchdown 3 4] 5
    by simp
qed

text \<open>
  The claim as stated fails in \<open>sc_landing\<close> (landing, thrust 37700 last sent): a
  landing tick writes 36700 into \<open>goal.thrust\<close> while the thrust getter still returns
  37700, and a second landing tick before any pulse tick writes 36700 again.
\<close>

theorem landCurve_getter_unchanged:
  "reachable sc_landing
   \<and> getThrust sc_landing = Num 37700
   \<and> thrust (goal (after (landCurve sc_landing))) = Num 36700
   \<and> getThrust (after (landCurve sc_landing)) = Num 37700
   \<and> \<not> (getThrust (after (landCurve sc_landing)) = thrust (goal (after (landCurve sc_landing))))
   \<and> thrust (goal (run [LandTick, LandTick] sc_landing)) = Num 36700"
  using reachable_sc_landing
  by (simp add: sc_landing_eq Copter_def landCurve_def MIN_THRUST_def setThrust_def
        getThrust_def Let_def)

text \<open>
  With a pulse tick after each landing tick, a round steps the thrust last sent, and
  \<open>goal.thrust\<close>, down by 1000 as long as the floor is not reached.
\<close>

lemma ramp_round:
  assumes "ramping k s" and "11001 < k" and "k \<le> 61000"
  shows "ramping (k - 1000) (run [LandTick, PulseTick] s)
     \<and> thrust (goal (run [LandTick, PulseTick] s)) = Num (of_int (k - 1000))"
proof -
  have r: "\<lfloor>(of_int k :: real) - 1999 / 2\<rfloor> = k - 1000"
    by linarith
  from assms show ?thesis
    by (simp add: ramping_def landCurve_def MIN_THRUST_def getThrust_def setThrust_def
          pulse_def setpoint_def Let_def r)
qed

lemma ramp_rounds:
  assumes "ramping k s" and "k \<le> 61000" and "10001 < k - 1000 * int n"
  shows "ramping (k - 1000 * int n) (run (sc_ramp n) s)"
  using assms
proof (induction n arbitrary: k s)
  case 0
  then show ?case by (simp add: sc_ramp_def)
next
  case (Suc n)
  from Suc.prems have "11001 < k"
    by simp
  with Suc.prems ramp_round [of k s] have 1: "ramping (k - 1000) (run [LandTick, PulseTick] s)"
    by simp
  from Suc.prems have "k - 1000 \<le> 61000" and "10001 < (k - 1000) - 1000 * int n"
    by simp_all
  with Suc.IH [OF 1] have "ramping (k - 1000 - 1000 * int n)
      (run (sc_ramp n) (run [LandTick, PulseTick] s))"
    by simp
  moreover have "sc_ramp (Suc n) = [LandTick, PulseTick] @ sc_ramp n"
    by (simp add: sc_ramp_def)
  moreover have "k - 1000 - 1000 * int n = k - 1000 * int (Suc n)"
    by simp
  ultimately show ?case
    by (simp only: run_append)
qed

lemma ramp_touchdown:
  assumes "ramping k s" and "k \<le> 11001"
  shows "copterStates (run [LandTick] s) = Waiting
     \<and> landDeferred (run [LandTick] s) = [''waiting'']
     \<and> thrust (goal (run [LandTick] s)) = Num 10001
     \<and> hoverTimer (run [LandTick] s) = None \<and> pulseTimer (run [LandTick] s) = None"
  using assms
  by (simp add: ramping_def landCurve_def MIN_THRUST_def getThrust_def setThrust_def
        fire_def hook_defs currentState_def Let_def)

text \<open>
  X1. With the pulse timer running between the landing ticks the ramp ends: from a
  landing state whose last sent thrust is an integer \<open>k \<le> 61000\<close>, after
  \<open>(k - 10002) div 1000\<close> rounds of \<open>sc_ramp\<close> the next landing tick fires
  \<^verbatim>\<open>landed\<close>: the phase is \<^verbatim>\<open>waiting\<close> and the deferred of \<^verbatim>\<open>land\<close> has been
  resolved once, with \<^verbatim>\<open>'waiting'\<close>.
\<close>

theorem landing_ramp_ends:
  assumes "ramping k s" and "k \<le> 61000"
  shows "copterStates (run (sc_ramp (nat ((k - 10002) div 1000)) @ [LandTick]) s) = Waiting
     \<and> landDeferred (run (sc_ramp (nat ((k - 10002) div 1000)) @ [LandTick]) s) = [''waiting'']"
proof -
  define n where "n = nat ((k - 10002) div 1000)"
  have a: "10001 < k - 1000 * int n \<or> n = 0"
    unfolding n_def by (cases "k \<le> 10001") auto
  have b: "k - 1000 * int n \<le> 11001"
    unfolding n_def by (cases "k \<le> 10001") auto
  have "ramping (k - 1000 * int n) (run (sc_ramp n) s)"
  proof (cases "n = 0")
    case True
    with assms(1) show ?thesis by (simp add: sc_ramp_def)
  next
    case False
    with a assms ramp_rounds [of k s n] show ?thesis by simp
  qed
  from ramp_touchdown [OF this b] show ?thesis
    unfolding n_def run_append by simp
qed

theorem landing_ramp_ends_witness:
  "ramping 37700 sc_landing
   \<and> copterStates (run (sc_ramp 27 @ [LandTick]) sc_landing) = Waiting
   \<and> landDeferred (run (sc_ramp 27 @ [LandTick]) sc_landing) = [''waiting'']"
proof -
  have 1: "ramping 37700 sc_landing"
    by (simp add: ramping_def sc_landing_eq Copter_def)
  have 2: "nat ((37700 - 10002) div 1000) = 27"
    by simp
  show ?thesis
    using 1 landing_ramp_ends [OF 1] 2 by simp
qed

section \<open>Takeoff\<close>

lemma takeoff_pending_step:
  assumes "copterStates s = TakingOff" and "flightTimer s = Some (StopThrustingUp 2000)"
    and "takeoffDeferred s = []" and "keeps_phase a"
  shows "copterStates (after (step a s)) = TakingOff
     \<and> flightTimer (after (step a s)) = Some (StopThrustingUp 2000)
     \<and> takeoffDeferred (after (step a s)) = []"
proof (cases a)
  case CallConnect
  with assms show ?thesis by (simp add: connect_def fire_def)
next
  case DriverConnected
  with assms show ?thesis by (simp add: connect_then_def fire_def)
next
  case CallTakeoff
  with assms show ?thesis by (simp add: takeoff_def fire_def)
next
  case CallTakeoff1
  with assms show ?thesis by (simp add: takeoff1_def fire_def)
next
  case CallLand
  with assms show ?thesis by (simp add: land_def fire_def)
next
  case CallHover
  with assms show ?thesis by (simp add: keeps_phase_def)
next
  case PulseTick
  with assms show ?thesis by (simp add: pulse_def setpoint_def Let_def)
next
  case LandTick
  with assms show ?thesis
    by (simp add: landCurve_def fire_def setThrust_def Let_def)
next
  case FlightTick
  with assms show ?thesis by (simp add: keeps_phase_def)
next
  case (StabilizerSample data)
  with assms show ?thesis
    by (simp add: handleStabilizerTelemetry_def setter_defs Let_def)
next
  case (MotorSample data)
  with assms show ?thesis by (simp add: handleMotorTelemetry_def Let_def)
next
  case (AccSample data)
  with assms show ?thesis
    by (simp add: handleAccTelemetry_def setThrust_def Let_def)
next
  case (GyroSample data)
  with assms show ?thesis by (simp add: handleGyroTelemetry_def)
qed (use assms in \<open>simp_all add: setter_defs Let_def\<close>)

lemma takeoff_pending_run:
  assumes "copterStates s = TakingOff" and "flightTimer s = Some (StopThrustingUp 2000)"
    and "takeoffDeferred s = []" and "list_all keeps_phase as"
  shows "copterStates (run as s) = TakingOff
     \<and> flightTimer (run as s) = Some (StopThrustingUp 2000)
     \<and> takeoffDeferred (run as s) = []"
  using assms
proof (induction as arbitrary: s)
  case Nil
  then show ?case by simp
next
  case (Cons a as)
  show ?case
  proof (cases "enabled a s")
    case True
    from Cons.prems have "keeps_phase a" and rest: "list_all keeps_phase as"
      by simp_all
    with Cons.prems takeoff_pending_step [of s a]
    have "copterStates (after (step a s)) = TakingOff"
      and "flightTimer (after (step a s)) = Some (StopThrustingUp 2000)"
      and "takeoffDeferred (after (step a s)) = []"
      by simp_all
    with Cons.IH [of "after (step a s)"] rest True show ?thesis
      by simp
  next
    case False
    with Cons.IH [of s] Cons.prems show ?thesis
      by simp
  qed
qed

lemma flightTick_stabilizes:
  assumes "copterStates s = TakingOff" and "flightTimer s = Some (StopThrustingUp d)"
  shows "flightTick s =
     Inr (s\<lparr> copterStates := Hovering, goal := (goal s)\<lparr> z := Num 1 \<rparr>,
            flightTimer := None, takeoffDeferred := takeoffDeferred s @ [''OK''] \<rparr>)"
  using assms by (simp add: flightTick_def stopThrustingUp_def fire_def hook_defs)

text \<open>
  C6. \<^verbatim>\<open>takeoff()\<close> in phase \<^verbatim>\<open>waiting\<close> enters \<^verbatim>\<open>taking-off\<close> at once, with
  \<open>goal.z = 1.5\<close> and \<open>goal.thrust = 35000\<close>, the pulse timer started and a timeout of
  2000 ms armed. Whatever telemetry, timer ticks, setter calls and (failing) API calls
  come in between, short of a call of \<^verbatim>\<open>hover()\<close>, the phase stays \<^verbatim>\<open>taking-off\<close>
  with the timeout pending; when the timeout fires, the machine moves to
  \<^verbatim>\<open>hovering\<close>, \<open>goal.z\<close> is 1.0, and the deferred of \<^verbatim>\<open>takeoff\<close> is resolved with
  \<^verbatim>\<open>'OK'\<close>.
\<close>

theorem takeoff_then_hovering:
  assumes "copterStates s = Waiting" and "list_all keeps_phase as"
  shows "takeoff s =
       Inr (s\<lparr> copterStates := TakingOff,
              goal := (goal s)\<lparr> z := Num (3 / 2), thrust := Num 35000 \<rparr>,
              pulseTimer := Some 100,
              flightTimer := Some (StopThrustingUp 2000), takeoffDeferred := [] \<rparr>)
     \<and> copterStates (run as (after (takeoff s))) = TakingOff
     \<and> flightTimer (run as (after (takeoff s))) = Some (StopThrustingUp 2000)
     \<and> enabled FlightTick (run as (after (takeoff s)))
     \<and> step FlightTick (run as (after (takeoff s))) =
         Inr ((run as (after (takeoff s)))\<lparr> copterStates := Hovering,
                goal := (goal (run as (after (takeoff s))))\<lparr> z := Num 1 \<rparr>,
                flightTimer := None, takeoffDeferred := [''OK''] \<rparr>)"
proof -
  have t: "takeoff s =
       Inr (s\<lparr> copterStates := TakingOff,
              goal := (goal s)\<lparr> z := Num (3 / 2), thrust := Num 35000 \<rparr>,
              pulseTimer := Some 100,
              flightTimer := Some (StopThrustingUp 2000), takeoffDeferred := [] \<rparr>)"
    using assms(1) by (simp add: takeoff_def fire_def hook_defs)
  have p: "copterStates (run as (after (takeoff s))) = TakingOff
     \<and> flightTimer (run as (after (takeoff s))) = Some (StopThrustingUp 2000)
     \<and> takeoffDeferred (run as (after (takeoff s))) = []"
    by (rule takeoff_pending_run) (simp_all add: t assms(2))
  with flightTick_stabilizes [of "run as (after (takeoff s))" 2000] t show ?thesis
    by simp
qed

theorem takeoff_then_hovering_witness:
  "takeoff sc_waiting =
       Inr (sc_waiting\<lparr> copterStates := TakingOff,
              goal := (goal sc_waiting)\<lparr> z := Num (3 / 2), thrust := Num 35000 \<rparr>,
              pulseTimer := Some 100,
              flightTimer := Some (StopThrustingUp 2000), takeoffDeferred := [] \<rparr>)
     \<and> copterStates (run sc_interleaving (after (takeoff sc_waiting))) = TakingOff
     \<and> flightTimer (run sc_interleaving (after (takeoff sc_waiting))) = Some (StopThrustingUp 2000)
     \<and> enabled FlightTick (run sc_interleaving (after (takeoff sc_waiting)))
     \<and> step FlightTick (run sc_interleaving (after (takeoff sc_waiting))) =
         Inr ((run sc_interleaving (after (takeoff sc_waiting)))\<lparr> copterStates := Hovering,
                goal := (goal (run sc_interleaving (after (takeoff sc_waiting))))\<lparr> z := Num 1 \<rparr>,
                flightTimer := None, takeoffDeferred := [''OK''] \<rparr>)"
proof -
  have 2: "list_all keeps_phase sc_interleaving"
    by (simp add: sc_interleaving_def keeps_phase_def)
  show ?thesis
    by (rule takeoff_then_hovering [OF sc_waiting_phase 2])
qed

section \<open>The thrust setter\<close>

text \<open>
  On the inputs it handles, the thrust setter stages into \<open>nextSetpoint.thrust\<close>: 10001
  if \<open>t\<close> is not a number, 10001 if \<open>t < 10001\<close>, 60000 if \<open>t > 60000\<close>, and
  \<open>round t\<close> if \<open>10001 \<le> t \<le> 60000\<close>. It changes nothing but
  \<open>nextSetpoint.thrust\<close>, so \<open>currentSetpoint\<close> and \<open>goal\<close> are as before, and the
  thrust getter reads \<open>currentSetpoint.thrust\<close>.
\<close>

lemma setThrust_stages:
  "(\<not> isNumber t \<longrightarrow> thrust (nextSetpoint (setThrust t s)) = Num 10001)
   \<and> (r < 10001 \<longrightarrow> thrust (nextSetpoint (setThrust (Num r) s)) = Num 10001)
   \<and> (r > 60000 \<longrightarrow> thrust (nextSetpoint (setThrust (Num r) s)) = Num 60000)
   \<and> (10001 \<le> r \<and> r \<le> 60000 \<longrightarrow>
        thrust (nextSetpoint (setThrust (Num r) s)) = Num (of_int (round r)))
   \<and> setThrust t s = s\<lparr> nextSetpoint := (nextSetpoint s)\<lparr> thrust := thrust (nextSetpoint (setThrust t s)) \<rparr> \<rparr>
   \<and> currentSetpoint (setThrust t s) = currentSetpoint s
   \<and> goal (setThrust t s) = goal s
   \<and> getThrust s = thrust (currentSetpoint s)
   \<and> getThrust (setThrust t s) = getThrust s"
  by (simp add: setThrust_def getThrust_def Let_def round_def)

lemma setThrust_stages_examples:
  "thrust (nextSetpoint (setThrust Undefined Copter)) = Num 10001
   \<and> thrust (nextSetpoint (setThrust (Num 5) Copter)) = Num 10001
   \<and> thrust (nextSetpoint (setThrust (Num 70000) Copter)) = Num 60000
   \<and> thrust (nextSetpoint (setThrust (Num (40000 + 1 / 2)) Copter)) = Num 40001
   \<and> getThrust (setThrust (Num 5) Copter) = Undefined"
proof -
  have g: "getThrust Copter = Undefined"
    by (simp add: getThrust_def Copter_def)
  have r: "round (40000 + 1 / 2 :: real) = 40001"
    by (simp add: round_def)
  show ?thesis
    using setThrust_stages [of Undefined Copter 5] setThrust_stages [of "Num 5" Copter 70000]
      setThrust_stages [of Undefined Copter "40000 + 1 / 2"] g r
    by simp
qed

lemma sc_unpulsed_landing_eq:
  "sc_unpulsed_landing =
     Copter\<lparr> copterStates := Landing,
       driver_subscribed := [''motor'', ''stabilizer'', ''accelerometer'', ''gyro''],
       goal := (goal Copter)\<lparr> z := Num 1, thrust := NaN \<rparr>,
       nextSetpoint := (nextSetpoint Copter)\<lparr> thrust := NaN \<rparr>,
       hoverTimer := Some 250, pulseTimer := Some 100 \<rparr>"
  by (simp add: sc_unpulsed_landing_def Copter_def op_defs hook_defs setter_defs getThrust_def
        MIN_THRUST_def Let_def)

lemma reachable_sc_unpulsed_landing: "reachable sc_unpulsed_landing"
  unfolding sc_unpulsed_landing_def by (rule reachable_run) (rule reachable.reach_init)

text \<open>
  C7. The input \<open>NaN\<close> is missed by the thrust setter: \<^verbatim>\<open>_.isNumber\<close> accepts it, so it
  is not replaced by 10001, and both comparisons with it are false, so it is not
  clamped; \<^verbatim>\<open>Math.round\<close> leaves it, and \<open>NaN\<close> is staged into
  \<open>nextSetpoint.thrust\<close>: none of 10001, 60000 or a rounded number in
  \<open>[10001, 60000]\<close>. The copter passes this input to the setter itself: a landing
  tick that comes before any pulse tick reads \<open>undefined\<close> through the thrust getter
  and hands \<open>undefined - 1000\<close>, which is \<open>NaN\<close>, to the setter. As for every input,
  only \<open>nextSetpoint.thrust\<close> changes.
\<close>

theorem setThrust_NaN_staged:
  "isNumber NaN \<and> \<not> js_lt NaN (Num 10001) \<and> \<not> js_gt NaN (Num 60000)
   \<and> setThrust NaN s = s\<lparr> nextSetpoint := (nextSetpoint s)\<lparr> thrust := NaN \<rparr> \<rparr>
   \<and> thrust (nextSetpoint (setThrust NaN s)) \<noteq> Num 10001
   \<and> thrust (nextSetpoint (setThrust NaN s)) \<noteq> Num 60000
   \<and> thrust (nextSetpoint (setThrust NaN s)) \<noteq> Num (of_int (round r))
   \<and> reachable sc_unpulsed_landing
   \<and> js_sub (getThrust (run [CallConnect, DriverConnected, CallTakeoff, CallHover, CallLand] Copter))
         (Num 1000) = NaN
   \<and> thrust (nextSetpoint sc_unpulsed_landing) = NaN"
  using reachable_sc_unpulsed_landing
  by (simp add: setThrust_def Let_def sc_unpulsed_landing_eq Copter_def getThrust_def
        op_defs hook_defs)

section \<open>The deviation function\<close>

text \<open>
  C8. For all real numbers \<open>a\<close> (the current value) and \<open>b\<close> (the goal value),
  \<open>deltaToGoal\<close> returns 0 when \<open>\<bar>b - a\<bar> \<le> 0.01\<close> and \<open>b - a\<close> otherwise; in
  particular it is 0 at \<open>(a, a)\<close> and 0.02 at \<open>(a, a + 0.02)\<close>.
\<close>

theorem deltaToGoal_deviation:
  "deltaToGoal (Num a) (Num b) = (if \<bar>b - a\<bar> \<le> 1 / 100 then Num 0 else Num (b - a))
   \<and> deltaToGoal (Num a) (Num a) = Num 0
   \<and> deltaToGoal (Num a) (Num (a + 2 / 100)) = Num (2 / 100)"
  by (simp add: deltaToGoal_def epsilon_def Let_def)

theorem deltaToGoal_deviation_witness:
  "deltaToGoal (Num 1) (Num 3) = Num 2
   \<and> deltaToGoal (Num 1) (Num 1) = Num 0
   \<and> deltaToGoal (Num 1) (Num (1 + 2 / 100)) = Num (2 / 100)"
  using deltaToGoal_deviation [of 1 3] by simp

section \<open>Leaving the landing phase\<close>

text \<open>
  C9. The leave-hook of \<^verbatim>\<open>landing\<close> stops the landing interval and the pulse timer
  and issues exactly one setpoint, all zero, through \<^verbatim>\<open>setpoint\<close>: it is stored as
  \<open>currentSetpoint\<close> and sent to the driver, and nothing else of the copter changes.
  Every transition out of \<^verbatim>\<open>landing\<close> runs it, once, before the phase is set; a
  transition out of another phase runs no leave-hook.
\<close>

theorem leaveLanding_effect:
  "leaveLanding s =
     s\<lparr> hoverTimer := None, pulseTimer := None,
        currentSetpoint := \<lparr> roll = Num 0, pitch = Num 0, yaw = Num 0, thrust = Num 0 \<rparr>,
        driver_sent := driver_sent s @ [\<lparr> roll = Num 0, pitch = Num 0, yaw = Num 0, thrust = Num 0 \<rparr>] \<rparr>
   \<and> (copterStates s = Landing \<and> source ev = Landing \<longrightarrow>
        fire ev s = Inr ((leaveLanding s)\<lparr> copterStates := Waiting \<rparr>))
   \<and> (copterStates s \<noteq> Landing \<and> copterStates s = source ev \<longrightarrow>
        fire ev s = Inr (enter (destination ev) (s\<lparr> copterStates := destination ev \<rparr>)))"
  by (cases ev; cases "copterStates s")
     (simp_all add: leaveLanding_def setpoint_def Let_def fire_def enterWaiting_def)

theorem leaveLanding_effect_witness:
  "fire Landed sc_landing = Inr ((leaveLanding sc_landing)\<lparr> copterStates := Waiting \<rparr>)
   \<and> driver_sent (leaveLanding sc_landing) =
       [\<lparr> roll = Num 0, pitch = Num 0, yaw = Num 0, thrust = Num 37700 \<rparr>,
        \<lparr> roll = Num 0, pitch = Num 0, yaw = Num 0, thrust = Num 0 \<rparr>]
   \<and> hoverTimer (leaveLanding sc_landing) = None
   \<and> pulseTimer (leaveLanding sc_landing) = None"
proof -
  have 1: "copterStates sc_landing = Landing \<and> source Landed = Landing"
    by (simp add: sc_landing_eq)
  have 2: "driver_sent sc_landing = [\<lparr> roll = Num 0, pitch = Num 0, yaw = Num 0, thrust = Num 37700 \<rparr>]"
    by (simp add: sc_landing_eq)
  have 3: "leaveLanding sc_landing =
     sc_landing\<lparr> hoverTimer := None, pulseTimer := None,
        currentSetpoint := \<lparr> roll = Num 0, pitch = Num 0, yaw = Num 0, thrust = Num 0 \<rparr>,
        driver_sent := driver_sent sc_landing @
          [\<lparr> roll = Num 0, pitch = Num 0, yaw = Num 0, thrust = Num 0 \<rparr>] \<rparr>"
    using leaveLanding_effect [of sc_landing Landed] by blast
  have 4: "fire Landed sc_landing = Inr ((leaveLanding sc_landing)\<lparr> copterStates := Waiting \<rparr>)"
    using leaveLanding_effect [of sc_landing Landed] 1 by blast
  show ?thesis
    using 2 4 by (simp add: 3)
qed

section \<open>The stabilizer handler\<close>

text \<open>
  C10. A stabilizer sample is stored as the snapshot. While the phase is
  \<^verbatim>\<open>taking-off\<close>, \<^verbatim>\<open>moving\<close> or \<^verbatim>\<open>hovering\<close> the handler also writes 0 into
  \<open>nextSetpoint.roll\<close>, \<open>nextSetpoint.pitch\<close> and \<open>nextSetpoint.yaw\<close> through the
  public setters, so that whatever roll, pitch and yaw were staged before are
  discarded; \<open>goal\<close>, \<open>currentSetpoint\<close>, \<open>nextSetpoint.thrust\<close> and the phase are
  unchanged. In every other phase it only stores the snapshot.
\<close>

theorem handleStabilizerTelemetry_effect:
  "handleStabilizerTelemetry data s =
     (if copterStates s \<in> {TakingOff, Moving, Hovering}
      then s\<lparr> telemetry := (telemetry s)\<lparr> stabilizer := Some data \<rparr>,
              nextSetpoint := (nextSetpoint s)\<lparr> roll := Num 0, pitch := Num 0, yaw := Num 0 \<rparr> \<rparr>
      else s\<lparr> telemetry := (telemetry s)\<lparr> stabilizer := Some data \<rparr> \<rparr>)
   \<and> (if copterStates s \<in> {TakingOff, Moving, Hovering}
       then nextSetpoint (handleStabilizerTelemetry data (setYaw c (setPitch b (setRoll a s)))) =
              (nextSetpoint s)\<lparr> roll := Num 0, pitch := Num 0, yaw := Num 0 \<rparr>
       else nextSetpoint (handleStabilizerTelemetry data (setYaw c (setPitch b (setRoll a s)))) =
              (nextSetpoint s)\<lparr> roll := a, pitch := b, yaw := c \<rparr>)"
  by (cases "copterStates s")
     (simp_all add: handleStabilizerTelemetry_def Let_def setYaw_def setPitch_def setRoll_def)

theorem handleStabilizerTelemetry_effect_witness:
  "nextSetpoint (handleStabilizerTelemetry [(''roll'', Num 3)]
       (setYaw (Num 7) (setPitch (Num 6) (setRoll (Num 5) sc_pulsed)))) =
     \<lparr> roll = Num 0, pitch = Num 0, yaw = Num 0, thrust = Num 0 \<rparr>
   \<and> nextSetpoint (handleStabilizerTelemetry [(''roll'', Num 3)]
       (setYaw (Num 7) (setPitch (Num 6) (setRoll (Num 5) sc_landing)))) =
     \<lparr> roll = Num 5, pitch = Num 6, yaw = Num 7, thrust = Num 37700 \<rparr>"
proof -
  have 1: "copterStates sc_pulsed = TakingOff" and 2: "copterStates sc_landing = Landing"
    by (simp_all add: sc_pulsed_eq sc_landing_eq)
  have 3: "nextSetpoint sc_pulsed = \<lparr> roll = Num 0, pitch = Num 0, yaw = Num 0, thrust = Num 0 \<rparr>"
    by (simp add: sc_pulsed_eq Copter_def)
  have 4: "nextSetpoint sc_landing = \<lparr> roll = Num 0, pitch = Num 0, yaw = Num 0, thrust = Num 37700 \<rparr>"
    by (simp add: sc_landing_eq)
  show ?thesis
    using handleStabilizerTelemetry_effect [of "[(''roll'', Num 3)]" sc_pulsed "Num 7" "Num 6" "Num 5"]
      handleStabilizerTelemetry_effect [of "[(''roll'', Num 3)]" sc_landing "Num 7" "Num 6" "Num 5"]
      1 2 3 4
    by simp
qed

end
